theory Spec2Isabelle
  imports Complex_Main
begin

section \<open>Configuration\<close>

text \<open>
  The module-level settings of \<^verbatim>\<open>main.py\<close>, each read once from the process environment
  (\<^verbatim>\<open>int(os.getenv(...))\<close>): any integer can arrive, also zero or a negative one.
  Python integers are unbounded, so they are \<^typ>\<open>int\<close>.
\<close>

record config =
  ENVIRONMENT :: string
  MAX_TOKENS :: int
  RATE_LIMIT_REQUESTS :: int
  RATE_LIMIT_PERIOD :: int

text \<open>The values the code falls back to when a variable is not set.\<close>

definition default_config :: config where
  "default_config =
     \<lparr>ENVIRONMENT = ''development'', MAX_TOKENS = 2048,
      RATE_LIMIT_REQUESTS = 100, RATE_LIMIT_PERIOD = 60\<rparr>"

text \<open>Small capacities, for the worked examples: two requests, or one, per 60 seconds.\<close>

definition two_per_minute :: config where
  "two_per_minute = default_config\<lparr>RATE_LIMIT_REQUESTS := 2\<rparr>"

definition one_per_minute :: config where
  "one_per_minute = default_config\<lparr>RATE_LIMIT_REQUESTS := 1\<rparr>"

section \<open>The rate limiter\<close>

text \<open>
  \<^verbatim>\<open>rate_limit_store = defaultdict(list)\<close>: a dictionary from client address to the list of
  request times. The times come from \<^verbatim>\<open>time.time()\<close>; they are idealised as real numbers
  (no rounding of the subtraction), and the clock reading is an argument of the model.
  The store is threaded through explicitly.
\<close>

type_synonym store = "string \<rightharpoonup> real list"

text \<open>
  Reading \<^verbatim>\<open>d[k]\<close> on a \<^verbatim>\<open>defaultdict(list)\<close>: a missing key is inserted with the empty
  list, which is then the value read.
\<close>

definition getitem :: "store \<Rightarrow> string \<Rightarrow> real list \<times> store" where
  "getitem s k = (case s k of Some v \<Rightarrow> (v, s) | None \<Rightarrow> ([], s(k \<mapsto> [])))"

text \<open>
  \<^verbatim>\<open>check_rate_limit(client_ip)\<close>, statement by statement: the comprehension reads the
  record and stores the filtered copy; the length test reads it again; the append reads
  it a third time and extends it.
\<close>

definition check_rate_limit :: "config \<Rightarrow> real \<Rightarrow> store \<Rightarrow> string \<Rightarrow> bool \<times> store" where
  "check_rate_limit cfg current_time s0 client_ip =
     (let (old, s1) = getitem s0 client_ip;
          s2 = s1(client_ip \<mapsto>
                 filter (\<lambda>req_time. current_time - req_time < real_of_int (RATE_LIMIT_PERIOD cfg)) old);
          (cur, s3) = getitem s2 client_ip
      in if RATE_LIMIT_REQUESTS cfg \<le> int (length cur) then (False, s3)
         else (let (cur', s4) = getitem s3 client_ip
               in (True, s4(client_ip \<mapsto> cur' @ [current_time]))))"

text \<open>The record of a key as a list: what \<^verbatim>\<open>rate_limit_store[k]\<close> would read.\<close>

definition record_of :: "store \<Rightarrow> string \<Rightarrow> real list" where
  "record_of s k = fst (getitem s k)"

text \<open>
  A sequence of calls \<^verbatim>\<open>check_rate_limit(k)\<close>, each with the clock reading at which it is
  made: \<open>calls\<close> is the store after the sequence, \<open>admitted\<close> the times of the calls for
  one key that returned \<^verbatim>\<open>True\<close>, in call order.
\<close>

fun calls :: "config \<Rightarrow> store \<Rightarrow> (string \<times> real) list \<Rightarrow> store" where
  "calls cfg s [] = s"
| "calls cfg s ((k, t) # cs) = calls cfg (snd (check_rate_limit cfg t s k)) cs"

fun admitted :: "config \<Rightarrow> store \<Rightarrow> (string \<times> real) list \<Rightarrow> string \<Rightarrow> real list" where
  "admitted cfg s [] k = []"
| "admitted cfg s ((k', t) # cs) k =
     (if fst (check_rate_limit cfg t s k') \<and> k' = k then [t] else [])
     @ admitted cfg (snd (check_rate_limit cfg t s k')) cs k"

text \<open>A time \<open>t\<close> lies in the trailing window of \<open>now\<close> as the code tests it.\<close>

definition in_window :: "config \<Rightarrow> real \<Rightarrow> real \<Rightarrow> bool" where
  "in_window cfg now t \<longleftrightarrow> now - t < real_of_int (RATE_LIMIT_PERIOD cfg)"

text \<open>
  The trailing window in the specification's words: the timestamps older than
  \<open>now - RATE_LIMIT_PERIOD\<close> are outside, so one that is exactly \<open>RATE_LIMIT_PERIOD\<close>
  seconds old is still inside.
\<close>

definition spec_in_window :: "config \<Rightarrow> real \<Rightarrow> real \<Rightarrow> bool" where
  "spec_in_window cfg now t \<longleftrightarrow> now - real_of_int (RATE_LIMIT_PERIOD cfg) \<le> t"

section \<open>Request validation\<close>

text \<open>
  The request body is validated by the declared models \<^verbatim>\<open>Message\<close> and \<^verbatim>\<open>ChatRequest\<close>
  before the endpoint function runs. A raw body is modelled after JSON decoding, with each
  member at its declared type: a member is absent, \<^verbatim>\<open>null\<close>, or a value. (A member of
  another JSON type is outside this model.) Strings are lists of characters, and the
  length constraints count list elements.
\<close>

datatype 'a field = Absent | Null | Value 'a

record raw_message =
  raw_role :: "string field"
  raw_content :: "string field"

record raw_chat_request =
  raw_messages :: "raw_message list field"
  raw_model :: "string field"
  raw_max_tokens :: "int field"
  raw_temperature :: "real field"

record Message =
  role :: string
  content :: string

record ChatRequest =
  messages :: "Message list"
  model :: "string option"
  max_tokens :: "int option"
  temperature :: "real option"

text \<open>
  A violated constraint, named as the \<^verbatim>\<open>Field(...)\<close> declaration names it, with the place
  of the offending member. Validation collects the violations of all members.
\<close>

datatype constraint =
  required | not_none | min_items | max_items | pattern | min_length | max_length | ge | le

datatype place = Member string | Item string nat string

type_synonym violation = "place \<times> constraint"

fun both :: "violation list + 'a \<Rightarrow> violation list + 'b \<Rightarrow> violation list + ('a \<times> 'b)" where
  "both (Inr a) (Inr b) = Inr (a, b)"
| "both (Inl e) (Inr b) = Inl e"
| "both (Inr a) (Inl e') = Inl e'"
| "both (Inl e) (Inl e') = Inl (e @ e')"

fun each :: "(violation list + 'a) list \<Rightarrow> violation list + 'a list" where
  "each [] = Inr []"
| "each (x # xs) = map_sum id (\<lambda>(a, as). a # as) (both x (each xs))"

definition violated :: "place \<Rightarrow> (constraint \<times> bool) list \<Rightarrow> 'a \<Rightarrow> violation list + 'a" where
  "violated p cs v =
     (case filter (\<lambda>(c, holds). \<not> holds) cs of
        [] \<Rightarrow> Inr v
      | bad \<Rightarrow> Inl (map (\<lambda>(c, holds). (p, c)) bad))"

text \<open>\<^verbatim>\<open>role: str = Field(..., pattern="^(user|assistant|system)$")\<close>\<close>

definition validate_role :: "place \<Rightarrow> string field \<Rightarrow> violation list + string" where
  "validate_role p f =
     (case f of
        Absent \<Rightarrow> Inl [(p, required)]
      | Null \<Rightarrow> Inl [(p, not_none)]
      | Value r \<Rightarrow> violated p [(pattern, r \<in> set [''user'', ''assistant'', ''system''])] r)"

text \<open>\<^verbatim>\<open>content: str = Field(..., min_length=1, max_length=10000)\<close>\<close>

definition validate_content :: "place \<Rightarrow> string field \<Rightarrow> violation list + string" where
  "validate_content p f =
     (case f of
        Absent \<Rightarrow> Inl [(p, required)]
      | Null \<Rightarrow> Inl [(p, not_none)]
      | Value c \<Rightarrow> violated p [(min_length, 1 \<le> length c), (max_length, length c \<le> 10000)] c)"

definition validate_Message :: "nat \<Rightarrow> raw_message \<Rightarrow> violation list + Message" where
  "validate_Message i m =
     map_sum id (\<lambda>(r, c). \<lparr>role = r, content = c\<rparr>)
       (both (validate_role (Item ''messages'' i ''role'') (raw_role m))
             (validate_content (Item ''messages'' i ''content'') (raw_content m)))"

text \<open>\<^verbatim>\<open>messages: List[Message] = Field(..., min_items=1, max_items=50)\<close>\<close>

definition validate_messages :: "raw_message list field \<Rightarrow> violation list + Message list" where
  "validate_messages f =
     (case f of
        Absent \<Rightarrow> Inl [(Member ''messages'', required)]
      | Null \<Rightarrow> Inl [(Member ''messages'', not_none)]
      | Value ms \<Rightarrow>
          map_sum id snd
            (both (violated (Member ''messages'')
                     [(min_items, 1 \<le> length ms), (max_items, length ms \<le> 50)] ())
                  (each (map (\<lambda>(i, m). validate_Message i m) (enumerate 0 ms)))))"

text \<open>\<^verbatim>\<open>model: Optional[str] = Field(default="gpt-3.5-turbo")\<close>\<close>

definition validate_model :: "string field \<Rightarrow> violation list + string option" where
  "validate_model f =
     (case f of
        Absent \<Rightarrow> Inr (Some ''gpt-3.5-turbo'')
      | Null \<Rightarrow> Inr None
      | Value m \<Rightarrow> Inr (Some m))"

text \<open>\<^verbatim>\<open>max_tokens: Optional[int] = Field(default=1024, ge=1, le=MAX_TOKENS)\<close>\<close>

definition validate_max_tokens :: "config \<Rightarrow> int field \<Rightarrow> violation list + int option" where
  "validate_max_tokens cfg f =
     (case f of
        Absent \<Rightarrow> Inr (Some 1024)
      | Null \<Rightarrow> Inr None
      | Value n \<Rightarrow>
          violated (Member ''max_tokens'') [(ge, 1 \<le> n), (le, n \<le> MAX_TOKENS cfg)] (Some n))"

text \<open>\<^verbatim>\<open>temperature: Optional[float] = Field(default=1.0, ge=0, le=2)\<close>\<close>

definition validate_temperature :: "real field \<Rightarrow> violation list + real option" where
  "validate_temperature f =
     (case f of
        Absent \<Rightarrow> Inr (Some 1)
      | Null \<Rightarrow> Inr None
      | Value x \<Rightarrow> violated (Member ''temperature'') [(ge, 0 \<le> x), (le, x \<le> 2)] (Some x))"

definition validate :: "config \<Rightarrow> raw_chat_request \<Rightarrow> violation list + ChatRequest" where
  "validate cfg raw =
     map_sum id
       (\<lambda>(ms, md, mt, t). \<lparr>messages = ms, model = md, max_tokens = mt, temperature = t\<rparr>)
       (both (validate_messages (raw_messages raw))
          (both (validate_model (raw_model raw))
             (both (validate_max_tokens cfg (raw_max_tokens raw))
                   (validate_temperature (raw_temperature raw)))))"

text \<open>
  The acceptance condition in the specification's words: messages present, between 1 and
  50 of them, each with a role among the three and a content of 1 to 10000 characters;
  \<open>max_tokens\<close>, if present, an integer within 1 and the ceiling; \<open>temperature\<close>, if
  present, a number within 0 and 2. A member given as \<^verbatim>\<open>null\<close> is present, and is neither
  an integer nor a number.
\<close>

definition spec_message_ok :: "raw_message \<Rightarrow> bool" where
  "spec_message_ok m \<longleftrightarrow>
     (case raw_role m of
        Value r \<Rightarrow> r = ''user'' \<or> r = ''assistant'' \<or> r = ''system''
      | _ \<Rightarrow> False) \<and>
     (case raw_content m of
        Value c \<Rightarrow> 1 \<le> length c \<and> length c \<le> 10000
      | _ \<Rightarrow> False)"

definition spec_accepts :: "config \<Rightarrow> raw_chat_request \<Rightarrow> bool" where
  "spec_accepts cfg raw \<longleftrightarrow>
     (case raw_messages raw of
        Value ms \<Rightarrow> ms \<noteq> [] \<and> length ms \<le> 50 \<and> list_all spec_message_ok ms
      | _ \<Rightarrow> False) \<and>
     (case raw_max_tokens raw of
        Absent \<Rightarrow> True
      | Null \<Rightarrow> False
      | Value n \<Rightarrow> 1 \<le> n \<and> n \<le> MAX_TOKENS cfg) \<and>
     (case raw_temperature raw of
        Absent \<Rightarrow> True
      | Null \<Rightarrow> False
      | Value x \<Rightarrow> 0 \<le> x \<and> x \<le> 2)"

text \<open>
  The condition of the declarations: the same on the messages, and on \<open>max_tokens\<close> and
  \<open>temperature\<close> when they are given as values; the two members are declared
  \<^verbatim>\<open>Optional\<close>, so either may also be given as \<^verbatim>\<open>null\<close>.
\<close>

definition accepts_condition :: "config \<Rightarrow> raw_chat_request \<Rightarrow> bool" where
  "accepts_condition cfg raw \<longleftrightarrow>
     (case raw_messages raw of
        Value ms \<Rightarrow> ms \<noteq> [] \<and> length ms \<le> 50 \<and> list_all spec_message_ok ms
      | _ \<Rightarrow> False) \<and>
     (case raw_max_tokens raw of
        Value n \<Rightarrow> 1 \<le> n \<and> n \<le> MAX_TOKENS cfg
      | _ \<Rightarrow> True) \<and>
     (case raw_temperature raw of
        Value x \<Rightarrow> 0 \<le> x \<and> x \<le> 2
      | _ \<Rightarrow> True)"

section \<open>The upstream client\<close>

text \<open>
  The arguments of \<^verbatim>\<open>client.chat.completions.create\<close>: each message dictionary
  \<^verbatim>\<open>{"role": ..., "content": ...}\<close> is the pair of its two values.
\<close>

record create_args =
  arg_model :: "string option"
  arg_messages :: "(string \<times> string) list"
  arg_max_tokens :: "int option"
  arg_temperature :: "real option"

text \<open>
  What the handler reads of a completion: \<^verbatim>\<open>choices[i].message.content\<close> (a string or
  \<^verbatim>\<open>None\<close>) for each choice, \<^verbatim>\<open>model\<close>, and \<^verbatim>\<open>usage\<close> (an object or \<^verbatim>\<open>None\<close>).
\<close>

record CompletionUsage =
  prompt_tokens :: int
  completion_tokens :: int
  total_tokens :: int

record ChatCompletion =
  choices :: "string option list"
  completion_model :: string
  completion_usage :: "CompletionUsage option"

text \<open>
  Exceptions: \<^verbatim>\<open>fastapi.HTTPException\<close> with its status code and detail;
  \<^verbatim>\<open>IndexError\<close> of \<^verbatim>\<open>choices[0]\<close> on an empty list; the validation error of building a
  \<^verbatim>\<open>ChatResponse\<close> whose \<^verbatim>\<open>response\<close> is not a string; and any other exception that the
  upstream client raises, with its text \<^verbatim>\<open>str(e)\<close>.
\<close>

datatype HTTPException = HTTPException (status_code: nat) (detail: string)

datatype exn =
  Raised_HTTPException HTTPException | IndexError | ValidationError | OtherError string

text \<open>
  The client is the environment of the handlers: what \<^verbatim>\<open>client.models.list()\<close> does, and
  what \<^verbatim>\<open>client.chat.completions.create\<close> does for given arguments.
\<close>

record OpenAI =
  models_list :: "exn + unit"
  chat_completions_create :: "create_args \<Rightarrow> exn + ChatCompletion"

datatype upstream_call = models_list_call | chat_completions_create_call create_args

text \<open>The log records, one constructor for each logging statement of the handlers.\<close>

datatype log_event =
    warning_rate_limit_exceeded string
  | warning_invalid_model "string option"
  | info_chat_request string "string option"
  | info_successful_response string "(string \<times> int) list option"
  | error_in_chat_endpoint exn
  | error_api_unavailable exn

section \<open>The handlers\<close>

record ChatResponse =
  response :: string
  response_model :: string
  usage :: "(string \<times> int) list option"

record health_body =
  health_status :: string
  service :: string
  version :: string
  environment :: string

record status_body =
  api_available :: bool
  status_environment :: string
  status_max_tokens :: int

text \<open>
  What running a handler gives: its result, the rate-limit store afterwards, the upstream
  calls it made and the records it logged, both in order.
\<close>

record 'a outcome =
  returned :: 'a
  store_after :: store
  upstream_calls :: "upstream_call list"
  logged :: "log_event list"

definition health_check :: "config \<Rightarrow> health_body" where
  "health_check cfg =
     \<lparr>health_status = ''healthy'', service = ''AI Chatbot'', version = ''1.0.0'',
      environment = ENVIRONMENT cfg\<rparr>"

definition api_status :: "config \<Rightarrow> OpenAI \<Rightarrow> status_body \<times> upstream_call list \<times> log_event list" where
  "api_status cfg client =
     (let (available, lg) =
            (case models_list client of
               Inr test_response \<Rightarrow> (True, [])
             | Inl e \<Rightarrow> (False, [error_api_unavailable e]))
      in (\<lparr>api_available = available, status_environment = ENVIRONMENT cfg,
           status_max_tokens = MAX_TOKENS cfg\<rparr>,
          [models_list_call], lg))"

definition valid_models :: "string list" where
  "valid_models =
     [''gpt-3.5-turbo'', ''gpt-4'', ''gpt-4-turbo-preview'', ''gpt-4-turbo'', ''gpt-4o'',
      ''gpt-4o-mini'']"

definition in_valid_models :: "string option \<Rightarrow> bool" where
  "in_valid_models m = (case m of None \<Rightarrow> False | Some name \<Rightarrow> name \<in> set valid_models)"

text \<open>
  The body of the \<^verbatim>\<open>try\<close> block of \<^verbatim>\<open>chat\<close>: the exception it raises or the response it
  returns, with the upstream calls and log records up to that point.
\<close>

definition chat_try ::
  "OpenAI \<Rightarrow> string \<Rightarrow> ChatRequest \<Rightarrow> (exn + ChatResponse) \<times> upstream_call list \<times> log_event list"
where
  "chat_try client client_ip request0 =
     (let (request, log1) =
            (if \<not> in_valid_models (model request0)
             then (request0\<lparr>model := Some ''gpt-3.5-turbo''\<rparr>,
                   [warning_invalid_model (model request0)])
             else (request0, []));
          msgs = map (\<lambda>msg. (role msg, content msg)) (messages request);
          log2 = log1 @ [info_chat_request client_ip (model request)];
          args = \<lparr>arg_model = model request, arg_messages = msgs,
                  arg_max_tokens = max_tokens request, arg_temperature = temperature request\<rparr>;
          ups = [chat_completions_create_call args]
      in case chat_completions_create client args of
           Inl e \<Rightarrow> (Inl e, ups, log2)
         | Inr resp \<Rightarrow>
             (case choices resp of
                [] \<Rightarrow> (Inl IndexError, ups, log2)
              | response_text # _ \<Rightarrow>
                  (let usg = (case completion_usage resp of
                                Some u \<Rightarrow> Some [(''prompt_tokens'', prompt_tokens u),
                                                 (''completion_tokens'', completion_tokens u),
                                                 (''total_tokens'', total_tokens u)]
                              | None \<Rightarrow> None);
                       log3 = log2 @ [info_successful_response client_ip usg]
                   in case response_text of
                        None \<Rightarrow> (Inl ValidationError, ups, log3)
                      | Some text \<Rightarrow>
                          (Inr \<lparr>response = text, response_model = completion_model resp,
                                usage = usg\<rparr>, ups, log3))))"

text \<open>
  \<^verbatim>\<open>chat(request, req)\<close>: \<open>req_client\<close> is \<^verbatim>\<open>req.client.host\<close> when \<^verbatim>\<open>req.client\<close> is set.
  The function returns a response or raises an \<^verbatim>\<open>HTTPException\<close>.
\<close>

definition chat ::
  "config \<Rightarrow> OpenAI \<Rightarrow> real \<Rightarrow> store \<Rightarrow> string option \<Rightarrow> ChatRequest
     \<Rightarrow> (HTTPException + ChatResponse) outcome"
where
  "chat cfg client now s req_client request =
     (let client_ip = (case req_client of Some host \<Rightarrow> host | None \<Rightarrow> ''unknown'');
          (ok, s') = check_rate_limit cfg now s client_ip
      in if \<not> ok
         then \<lparr>returned = Inl (HTTPException 429 ''Rate limit exceeded. Please try again later.''),
               store_after = s', upstream_calls = [],
               logged = [warning_rate_limit_exceeded client_ip]\<rparr>
         else (case chat_try client client_ip request of
                 (Inr r, ups, lg) \<Rightarrow>
                   \<lparr>returned = Inr r, store_after = s', upstream_calls = ups, logged = lg\<rparr>
               | (Inl (Raised_HTTPException h), ups, lg) \<Rightarrow>
                   \<lparr>returned = Inl h, store_after = s', upstream_calls = ups, logged = lg\<rparr>
               | (Inl e, ups, lg) \<Rightarrow>
                   \<lparr>returned = Inl (HTTPException 500
                      ''An error occurred while processing your request. Please try again.''),
                    store_after = s', upstream_calls = ups,
                    logged = lg @ [error_in_chat_endpoint e]\<rparr>))"

section \<open>The application\<close>

text \<open>
  The routes the handlers are registered under. For \<^verbatim>\<open>POST /api/chat\<close> the framework
  builds the \<^verbatim>\<open>request: ChatRequest\<close> argument from the body first: a body that fails
  validation is answered with status 422 and the endpoint function is not called. An
  \<^verbatim>\<open>HTTPException\<close> raised by an endpoint is answered with its status code and detail.
\<close>

datatype request =
  GET_health | GET_api_status | POST_api_chat "string option" raw_chat_request

datatype body =
    Health health_body
  | Status status_body
  | Chat ChatResponse
  | Detail string
  | Validation_errors "violation list"

record http_response =
  status :: nat
  body :: body

definition app :: "config \<Rightarrow> OpenAI \<Rightarrow> real \<Rightarrow> store \<Rightarrow> request \<Rightarrow> http_response outcome" where
  "app cfg client now s rq =
     (case rq of
        GET_health \<Rightarrow>
          \<lparr>returned = \<lparr>status = 200, body = Health (health_check cfg)\<rparr>,
           store_after = s, upstream_calls = [], logged = []\<rparr>
      | GET_api_status \<Rightarrow>
          (case api_status cfg client of
             (b, ups, lg) \<Rightarrow>
               \<lparr>returned = \<lparr>status = 200, body = Status b\<rparr>,
                store_after = s, upstream_calls = ups, logged = lg\<rparr>)
      | POST_api_chat req_client raw \<Rightarrow>
          (case validate cfg raw of
             Inl errors \<Rightarrow>
               \<lparr>returned = \<lparr>status = 422, body = Validation_errors errors\<rparr>,
                store_after = s, upstream_calls = [], logged = []\<rparr>
           | Inr request \<Rightarrow>
               (let out = chat cfg client now s req_client request
                in \<lparr>returned =
                      (case returned out of
                         Inl h \<Rightarrow> \<lparr>status = status_code h, body = Detail (detail h)\<rparr>
                       | Inr r \<Rightarrow> \<lparr>status = 200, body = Chat r\<rparr>),
                    store_after = store_after out, upstream_calls = upstream_calls out,
                    logged = logged out\<rparr>)))"

section \<open>Notions used in the statements\<close>

text \<open>A raw body is accepted when validation yields a request.\<close>

definition accepts :: "config \<Rightarrow> raw_chat_request \<Rightarrow> bool" where
  "accepts cfg raw = (case validate cfg raw of Inr request \<Rightarrow> True | Inl errors \<Rightarrow> False)"

text \<open>
  The client key of a request, as the first statement of \<^verbatim>\<open>chat\<close> computes it, and the
  detail text of its last \<^verbatim>\<open>except\<close> clause.
\<close>

definition client_key :: "string option \<Rightarrow> string" where
  "client_key req_client = (case req_client of Some host \<Rightarrow> host | None \<Rightarrow> ''unknown'')"

definition generic_detail :: string where
  "generic_detail = ''An error occurred while processing your request. Please try again.''"

text \<open>
  What is forwarded, in the specification's words: the messages in order, each with its
  role and content, together with the resolved model (the requested one when it is on the
  allow-list, the default otherwise), \<open>max_tokens\<close> and \<open>temperature\<close>.
\<close>

definition spec_forwarded :: "ChatRequest \<Rightarrow> create_args" where
  "spec_forwarded request =
     \<lparr>arg_model = (if in_valid_models (model request) then model request
                   else Some ''gpt-3.5-turbo''),
      arg_messages = map (\<lambda>msg. (role msg, content msg)) (messages request),
      arg_max_tokens = max_tokens request,
      arg_temperature = temperature request\<rparr>"

text \<open>The provider's usage counts copied into a dictionary, or \<^verbatim>\<open>None\<close> when it reports none.\<close>

definition usage_dict :: "CompletionUsage option \<Rightarrow> (string \<times> int) list option" where
  "usage_dict u =
     map_option (\<lambda>u. [(''prompt_tokens'', prompt_tokens u),
                       (''completion_tokens'', completion_tokens u),
                       (''total_tokens'', total_tokens u)]) u"

subsection \<open>Example inputs\<close>

text \<open>A message of role \<open>user\<close>, and a body that gives only its messages.\<close>

definition user_message :: "string \<Rightarrow> raw_message" where
  "user_message text = \<lparr>raw_role = Value ''user'', raw_content = Value text\<rparr>"

definition request_of :: "raw_message list \<Rightarrow> raw_chat_request" where
  "request_of ms =
     \<lparr>raw_messages = Value ms, raw_model = Absent, raw_max_tokens = Absent,
      raw_temperature = Absent\<rparr>"

text \<open>
  Three upstream stubs: one that answers every completion call with the single choice
  \<open>hi\<close>, the model \<open>gpt-3.5-turbo\<close> and the usage counts 5, 1 and 6; one that reports
  a dated model name and no usage; and one whose every call raises a transport failure.
\<close>

definition stub_client :: OpenAI where
  "stub_client =
     \<lparr>models_list = Inr (),
      chat_completions_create = (\<lambda>args.
        Inr \<lparr>choices = [Some ''hi''], completion_model = ''gpt-3.5-turbo'',
             completion_usage =
               Some \<lparr>prompt_tokens = 5, completion_tokens = 1, total_tokens = 6\<rparr>\<rparr>)\<rparr>"

definition dated_client :: OpenAI where
  "dated_client =
     \<lparr>models_list = Inr (),
      chat_completions_create = (\<lambda>args.
        Inr \<lparr>choices = [Some ''hi''], completion_model = ''gpt-3.5-turbo-0125'',
             completion_usage = None\<rparr>)\<rparr>"

definition failing_client :: OpenAI where
  "failing_client =
     \<lparr>models_list = Inl (OtherError ''Connection error.''),
      chat_completions_create = (\<lambda>args. Inl (OtherError ''Connection error.''))\<rparr>"

section \<open>Properties of the rate limiter\<close>

subsection \<open>One call\<close>

lemma check_rate_limit_eq:
  "check_rate_limit cfg now s k =
     (let kept = filter (in_window cfg now) (record_of s k)
      in if RATE_LIMIT_REQUESTS cfg \<le> int (length kept) then (False, s(k \<mapsto> kept))
         else (True, s(k \<mapsto> kept @ [now])))"
  by (cases "s k")
    (simp_all add: check_rate_limit_def getitem_def record_of_def in_window_def Let_def
      cong: filter_cong)

lemma record_of_upd: "record_of (s(k \<mapsto> v)) k' = (if k' = k then v else record_of s k')"
  by (simp add: record_of_def getitem_def split: option.splits)

lemma record_of_empty: "record_of Map.empty k = []"
  by (simp add: record_of_def getitem_def)

lemma record_of_check:
  "record_of (snd (check_rate_limit cfg now s k)) k' =
     (if k' = k
      then filter (in_window cfg now) (record_of s k)
           @ (if fst (check_rate_limit cfg now s k) then [now] else [])
      else record_of s k')"
  by (simp add: check_rate_limit_eq Let_def record_of_upd)

lemma fst_check:
  "fst (check_rate_limit cfg now s k) \<longleftrightarrow>
     int (length (filter (in_window cfg now) (record_of s k))) < RATE_LIMIT_REQUESTS cfg"
  by (auto simp add: check_rate_limit_eq Let_def)

lemma dom_check: "dom (snd (check_rate_limit cfg now s k)) = insert k (dom s)"
  by (simp add: check_rate_limit_eq Let_def)

subsection \<open>Sequences of calls\<close>


lemma calls_snoc:
  "calls cfg s (cs @ [(k, t)]) = snd (check_rate_limit cfg t (calls cfg s cs) k)"
  by (induction cfg s cs rule: calls.induct) simp_all

lemma admitted_snoc:
  "admitted cfg s (cs @ [(k', t)]) k =
     admitted cfg s cs k
     @ (if fst (check_rate_limit cfg t (calls cfg s cs) k') \<and> k' = k then [t] else [])"
  by (induction cfg s cs k rule: admitted.induct) simp_all

lemma length_record_check:
  assumes "int (length (record_of s k)) \<le> max 0 (RATE_LIMIT_REQUESTS cfg)"
  shows "int (length (record_of (snd (check_rate_limit cfg t s k')) k))
           \<le> max 0 (RATE_LIMIT_REQUESTS cfg)"
proof (cases "k = k'")
  case False
  with assms show ?thesis by (simp add: record_of_check)
next
  case True
  show ?thesis
  proof (cases "fst (check_rate_limit cfg t s k')")
    case True
    with \<open>k = k'\<close> show ?thesis by (simp add: record_of_check) (simp add: fst_check)
  next
    case False
    have "int (length (filter (in_window cfg t) (record_of s k))) \<le> int (length (record_of s k))"
      by simp
    also note assms
    finally show ?thesis using False \<open>k = k'\<close> by (simp add: record_of_check)
  qed
qed

lemma length_record_calls:
  assumes "\<forall>k. int (length (record_of s k)) \<le> max 0 (RATE_LIMIT_REQUESTS cfg)"
  shows "int (length (record_of (calls cfg s cs) k)) \<le> max 0 (RATE_LIMIT_REQUESTS cfg)"
  using assms
proof (induction cs arbitrary: s)
  case Nil
  then show ?case by simp
next
  case (Cons c cs)
  obtain k' t where c: "c = (k', t)" by (cases c)
  have "\<forall>k. int (length (record_of (snd (check_rate_limit cfg t s k')) k))
          \<le> max 0 (RATE_LIMIT_REQUESTS cfg)"
    using Cons.prems by (simp add: length_record_check)
  then show ?case unfolding c by (simp add: Cons.IH)
qed

lemma length_record_calls_empty:
  "int (length (record_of (calls cfg Map.empty cs) k)) \<le> max 0 (RATE_LIMIT_REQUESTS cfg)"
  by (rule length_record_calls) (simp add: record_of_empty)

lemma admitted_when_one_expired:
  assumes "int (length (record_of s k)) \<le> max 0 (RATE_LIMIT_REQUESTS cfg)"
    and "t \<in> set (record_of s k)" and "\<not> in_window cfg now t"
  shows "fst (check_rate_limit cfg now s k)"
proof -
  have "length (filter (in_window cfg now) (record_of s k)) < length (record_of s k)"
    using assms(2,3) by (auto intro: length_filter_less)
  moreover have "record_of s k \<noteq> []" using assms(2) by auto
  ultimately show ?thesis using assms(1) by (simp add: fst_check)
qed

lemma dom_calls: "dom (calls cfg s cs) = dom s \<union> fst ` set cs"
  by (induction cfg s cs rule: calls.induct) (auto simp: dom_check)

lemma in_window_mono: "t \<le> now \<Longrightarrow> in_window cfg now x \<Longrightarrow> in_window cfg t x"
  by (simp add: in_window_def)

lemma filter_window_twice:
  "t \<le> now \<Longrightarrow>
   filter (\<lambda>x. in_window cfg t x \<and> in_window cfg now x) xs = filter (in_window cfg now) xs"
  by (rule filter_cong) (auto dest: in_window_mono)

lemma window_invariant:
  "sorted (map snd cs @ [now]) \<Longrightarrow>
   filter (in_window cfg now) (record_of (calls cfg Map.empty cs) k) =
   filter (in_window cfg now) (admitted cfg Map.empty cs k)"
proof (induction cs arbitrary: now rule: rev_induct)
  case Nil
  then show ?case by (simp add: record_of_empty)
next
  case (snoc c cs)
  obtain k' t where c: "c = (k', t)" by (cases c)
  from snoc.prems have tn: "t \<le> now" and srt: "sorted (map snd cs @ [t])"
    by (simp_all add: c sorted_append)
  from snoc.prems have srt': "sorted (map snd cs @ [now])"
    by (auto simp add: c sorted_append)
  show ?case
  proof (cases "k = k'")
    case False
    then show ?thesis
      using snoc.IH [OF srt'] by (simp add: c calls_snoc admitted_snoc record_of_check)
  next
    case True
    then show ?thesis
      using snoc.IH [OF srt'] tn
      by (simp add: c calls_snoc admitted_snoc record_of_check filter_window_twice)
  qed
qed


subsection \<open>The steps of one call\<close>

text \<open>
  Claim C7, as the code has it. A call \<^verbatim>\<open>check_rate_limit(k)\<close> at time \<open>now\<close> first replaces
  the record of \<open>k\<close> by the stored timestamps \<open>t\<close> with \<open>now - RATE_LIMIT_PERIOD < t\<close>, in
  their order: a timestamp is removed when it is \<open>RATE_LIMIT_PERIOD\<close> seconds old or older,
  so one that is exactly \<open>RATE_LIMIT_PERIOD\<close> seconds old is removed. Then, if at least
  \<open>RATE_LIMIT_REQUESTS\<close> timestamps remain, it returns \<^verbatim>\<open>False\<close> and appends nothing;
  otherwise it appends \<open>now\<close> and returns \<^verbatim>\<open>True\<close>. No other key's record changes.
\<close>

theorem check_rate_limit_steps:
  "check_rate_limit cfg now s k =
     (let kept = filter (\<lambda>t. now - real_of_int (RATE_LIMIT_PERIOD cfg) < t) (record_of s k)
      in if RATE_LIMIT_REQUESTS cfg \<le> int (length kept)
         then (False, s(k \<mapsto> kept))
         else (True, s(k \<mapsto> kept @ [now])))"
proof -
  have "in_window cfg now = (\<lambda>t. now - real_of_int (RATE_LIMIT_PERIOD cfg) < t)"
    by (auto simp add: in_window_def fun_eq_iff)
  then show ?thesis by (simp add: check_rate_limit_eq)
qed

text \<open>
  The claim as written retains a timestamp that is exactly \<open>RATE_LIMIT_PERIOD\<close> seconds
  old. With the default period of 60 seconds, a record holding the time 0 and a call at
  time 60: the timestamp is exactly 60 seconds old, and it is not in the record afterwards.
\<close>

theorem check_rate_limit_boundary_counterexample:
  "60 - 0 = real_of_int (RATE_LIMIT_PERIOD default_config) \<and>
   0 \<notin> set (record_of
     (snd (check_rate_limit default_config 60 (Map.empty(''203.0.113.7'' \<mapsto> [0])) ''203.0.113.7''))
     ''203.0.113.7'')"
  by (simp add: check_rate_limit_eq record_of_upd in_window_def default_config_def Let_def)

subsection \<open>The store after any sequence of calls\<close>

text \<open>
  Claim C10. From the empty store of a fresh process, after any sequence of calls (so after
  each call of a sequence), every key's record holds at most \<open>RATE_LIMIT_REQUESTS\<close>
  timestamps, for a capacity that is not negative. The keys of the store after a sequence are
  the keys it had before and every key that was queried: a queried key is inserted, whatever
  the call returned, and no key is ever removed. After a call the key's stored record is the
  pruned one, also when the call returned \<^verbatim>\<open>False\<close>, and also when it is empty.
\<close>

theorem rate_limit_store_invariant:
  assumes "0 \<le> RATE_LIMIT_REQUESTS cfg"
  shows "int (length (record_of (calls cfg Map.empty cs) k)) \<le> RATE_LIMIT_REQUESTS cfg \<and>
         dom (calls cfg s cs) = dom s \<union> fst ` set cs \<and>
         snd (check_rate_limit cfg now s k) k =
           Some (filter (in_window cfg now) (record_of s k)
                 @ (if fst (check_rate_limit cfg now s k) then [now] else []))"
proof -
  have "int (length (record_of (calls cfg Map.empty cs) k)) \<le> RATE_LIMIT_REQUESTS cfg"
    using length_record_calls_empty [of cfg cs k] assms by simp
  moreover have "snd (check_rate_limit cfg now s k) k =
           Some (filter (in_window cfg now) (record_of s k)
                 @ (if fst (check_rate_limit cfg now s k) then [now] else []))"
    by (simp add: check_rate_limit_eq Let_def)
  ultimately show ?thesis by (simp add: dom_calls)
qed

theorem rate_limit_store_invariant_witness:
  "record_of (calls two_per_minute Map.empty [(''a'', 0), (''a'', 1), (''a'', 2), (''b'', 70)]) ''a''
     = [0, 1] \<and>
   dom (calls two_per_minute Map.empty [(''a'', 0), (''a'', 1), (''a'', 2), (''b'', 70)])
     = {''a'', ''b''} \<and>
   \<not> fst (check_rate_limit two_per_minute 2 (Map.empty(''a'' \<mapsto> [0, 1])) ''a'') \<and>
   snd (check_rate_limit two_per_minute 60 (Map.empty(''a'' \<mapsto> [0, 1])) ''a'') ''a'' = Some [1, 60] \<and>
   snd (check_rate_limit (two_per_minute\<lparr>RATE_LIMIT_REQUESTS := 0\<rparr>) 5 Map.empty ''c'') ''c'' = Some []"
  using rate_limit_store_invariant [of two_per_minute "[(''a'', 0), (''a'', 1), (''a'', 2), (''b'', 70)]" "''a''" Map.empty 2 ]
  by (simp add: two_per_minute_def default_config_def check_rate_limit_eq record_of_upd
      record_of_empty in_window_def Let_def insert_commute)

subsection \<open>Denial at capacity, and admission again\<close>

text \<open>
  Claim C2, as the code has it. Take any sequence of calls since process start, made at
  clock readings that never decrease, and a next call for key \<open>k\<close> at time \<open>now\<close>. If at
  least \<open>RATE_LIMIT_REQUESTS\<close> calls for \<open>k\<close> were admitted less than
  \<open>RATE_LIMIT_PERIOD\<close> seconds before \<open>now\<close>, the call returns \<^verbatim>\<open>False\<close>; if fewer were,
  it returns \<^verbatim>\<open>True\<close>. And once a recorded timestamp of \<open>k\<close> (the oldest one first) is
  \<open>RATE_LIMIT_PERIOD\<close> seconds old or older, the call returns \<^verbatim>\<open>True\<close>.
\<close>

theorem sliding_window_admission:
  assumes "sorted (map snd cs @ [now])"
  shows "(RATE_LIMIT_REQUESTS cfg
            \<le> int (length (filter (in_window cfg now) (admitted cfg Map.empty cs k)))
          \<longrightarrow> \<not> fst (check_rate_limit cfg now (calls cfg Map.empty cs) k)) \<and>
         (int (length (filter (in_window cfg now) (admitted cfg Map.empty cs k)))
            < RATE_LIMIT_REQUESTS cfg
          \<longrightarrow> fst (check_rate_limit cfg now (calls cfg Map.empty cs) k)) \<and>
         ((\<exists>t \<in> set (record_of (calls cfg Map.empty cs) k). \<not> in_window cfg now t)
          \<longrightarrow> fst (check_rate_limit cfg now (calls cfg Map.empty cs) k))"
proof -
  have "fst (check_rate_limit cfg now (calls cfg Map.empty cs) k) \<longleftrightarrow>
        int (length (filter (in_window cfg now) (admitted cfg Map.empty cs k)))
          < RATE_LIMIT_REQUESTS cfg"
    by (simp add: fst_check window_invariant [OF assms])
  moreover have "fst (check_rate_limit cfg now (calls cfg Map.empty cs) k)"
    if "\<exists>t \<in> set (record_of (calls cfg Map.empty cs) k). \<not> in_window cfg now t"
    using that length_record_calls_empty [of cfg cs k] by (blast intro: admitted_when_one_expired)
  ultimately show ?thesis by auto
qed

theorem sliding_window_admission_witness:
  "admitted two_per_minute Map.empty [(''a'', 0), (''a'', 10)] ''a'' = [0, 10] \<and>
   \<not> fst (check_rate_limit two_per_minute 20 (calls two_per_minute Map.empty [(''a'', 0), (''a'', 10)]) ''a'') \<and>
   fst (check_rate_limit two_per_minute 60
          (calls two_per_minute Map.empty [(''a'', 0), (''a'', 10), (''a'', 20)]) ''a'')"
  using sliding_window_admission [of "[(''a'', 0), (''a'', 10)]" 20 two_per_minute "''a''"]
    sliding_window_admission [of "[(''a'', 0), (''a'', 10), (''a'', 20)]" 60 two_per_minute "''a''"]
  by (simp add: two_per_minute_def default_config_def check_rate_limit_eq record_of_upd
      record_of_empty in_window_def Let_def)

text \<open>
  The claim as written counts the requests admitted within the trailing
  \<open>RATE_LIMIT_PERIOD\<close> seconds, and a request admitted exactly that long ago is still
  within them. With capacity 1 and the period of 60 seconds, a request admitted at time 0
  and a call at time 60: one admitted request lies in the specification's window, the
  capacity is reached, and the call returns \<^verbatim>\<open>True\<close>.
\<close>

theorem sliding_window_boundary_counterexample:
  "admitted one_per_minute Map.empty [(''203.0.113.7'', 0)] ''203.0.113.7'' = [0] \<and>
   RATE_LIMIT_REQUESTS one_per_minute
     \<le> int (length (filter (spec_in_window one_per_minute 60)
                (admitted one_per_minute Map.empty [(''203.0.113.7'', 0)] ''203.0.113.7''))) \<and>
   fst (check_rate_limit one_per_minute 60
          (calls one_per_minute Map.empty [(''203.0.113.7'', 0)]) ''203.0.113.7'')"
  by (simp add: one_per_minute_def default_config_def check_rate_limit_eq record_of_upd
      record_of_empty in_window_def spec_in_window_def Let_def)

section \<open>Properties of validation\<close>

subsection \<open>Which bodies are rejected\<close>

lemma isl_both: "isl (both a b) \<longleftrightarrow> isl a \<or> isl b"
  by (cases a; cases b) simp_all

lemma isl_each: "isl (each xs) \<longleftrightarrow> (\<exists>x \<in> set xs. isl x)"
  by (induction xs) (simp_all add: isl_both isl_map_sum)

lemma isl_violated: "isl (violated p cs v) \<longleftrightarrow> (\<exists>(c, holds) \<in> set cs. \<not> holds)"
proof -
  have "filter (\<lambda>(c, holds). \<not> holds) cs = [] \<longleftrightarrow> \<not> (\<exists>(c, holds) \<in> set cs. \<not> holds)"
    by (auto simp add: filter_empty_conv)
  then show ?thesis
    by (cases "filter (\<lambda>(c, holds). \<not> holds) cs") (simp_all add: violated_def)
qed

lemma isl_validate_Message: "isl (validate_Message i m) \<longleftrightarrow> \<not> spec_message_ok m"
  by (cases "raw_role m"; cases "raw_content m")
    (auto simp add: validate_Message_def isl_map_sum isl_both validate_role_def
      validate_content_def isl_violated spec_message_ok_def)

lemma isl_each_Message:
  "isl (each (map (\<lambda>(i, m). validate_Message i m) (enumerate n ms))) \<longleftrightarrow>
     \<not> list_all spec_message_ok ms"
proof -
  have "set ms = snd ` set (enumerate n ms)"
    by (metis map_snd_enumerate set_map)
  then have "(\<exists>x \<in> set (enumerate n ms). \<not> spec_message_ok (snd x)) \<longleftrightarrow>
             (\<exists>m \<in> set ms. \<not> spec_message_ok m)"
    by simp
  moreover have "isl (each (map (\<lambda>(i, m). validate_Message i m) (enumerate n ms))) \<longleftrightarrow>
      (\<exists>x \<in> set (enumerate n ms). \<not> spec_message_ok (snd x))"
    by (simp add: isl_each isl_validate_Message split_beta)
  ultimately show ?thesis by (simp add: list_all_iff)
qed

lemma isl_validate_messages:
  "isl (validate_messages f) \<longleftrightarrow>
     \<not> (case f of Value ms \<Rightarrow> ms \<noteq> [] \<and> length ms \<le> 50 \<and> list_all spec_message_ok ms
         | _ \<Rightarrow> False)"
proof (cases f)
  case (Value ms)
  have "1 \<le> length ms \<longleftrightarrow> ms \<noteq> []" by (cases ms) simp_all
  then show ?thesis
    using Value
    by (auto simp add: validate_messages_def isl_map_sum isl_both isl_each_Message isl_violated)
qed (simp_all add: validate_messages_def)

lemma isl_validate_max_tokens:
  "isl (validate_max_tokens cfg f) \<longleftrightarrow>
     \<not> (case f of Value n \<Rightarrow> 1 \<le> n \<and> n \<le> MAX_TOKENS cfg | _ \<Rightarrow> True)"
  by (cases f) (auto simp add: validate_max_tokens_def isl_violated)

lemma isl_validate_temperature:
  "isl (validate_temperature f) \<longleftrightarrow> \<not> (case f of Value x \<Rightarrow> 0 \<le> x \<and> x \<le> 2 | _ \<Rightarrow> True)"
  by (cases f) (auto simp add: validate_temperature_def isl_violated)

lemma isl_validate_model: "\<not> isl (validate_model f)"
  by (cases f) (simp_all add: validate_model_def)

lemma isl_validate: "isl (validate cfg raw) \<longleftrightarrow> \<not> accepts_condition cfg raw"
  by (simp add: validate_def isl_map_sum isl_both isl_validate_messages isl_validate_model
      isl_validate_max_tokens isl_validate_temperature accepts_condition_def)

lemma accepts_iff: "accepts cfg raw \<longleftrightarrow> \<not> isl (validate cfg raw)"
  by (cases "validate cfg raw") (simp_all add: accepts_def)

subsection \<open>What an accepted request holds\<close>

lemma both_Inr: "both a b = Inr p \<longleftrightarrow> a = Inr (fst p) \<and> b = Inr (snd p)"
  by (cases a; cases b) auto

lemma map_sum_Inr: "map_sum f g x = Inr y \<longleftrightarrow> (\<exists>z. x = Inr z \<and> y = g z)"
  by (cases x) auto

lemma violated_Inr: "violated p cs v = Inr x \<Longrightarrow> x = v"
  by (cases "filter (\<lambda>(c, holds). \<not> holds) cs") (simp_all add: violated_def)

lemma validate_Message_Inr:
  assumes "validate_Message i m = Inr msg"
  shows "m = \<lparr>raw_role = Value (role msg), raw_content = Value (content msg)\<rparr>"
proof -
  from assms obtain r c where
    r: "validate_role (Item ''messages'' i ''role'') (raw_role m) = Inr r" and
    c: "validate_content (Item ''messages'' i ''content'') (raw_content m) = Inr c" and
    msg: "msg = \<lparr>role = r, content = c\<rparr>"
    by (auto simp add: validate_Message_def map_sum_Inr both_Inr)
  from r have "raw_role m = Value r"
    by (cases "raw_role m") (auto simp add: validate_role_def dest: violated_Inr)
  moreover from c have "raw_content m = Value c"
    by (cases "raw_content m") (auto simp add: validate_content_def dest: violated_Inr)
  ultimately show ?thesis by (simp add: msg)
qed

lemma each_Message_Inr:
  "each (map (\<lambda>(i, m). validate_Message i m) (enumerate n ms)) = Inr msgs \<Longrightarrow>
   ms = map (\<lambda>m. \<lparr>raw_role = Value (role m), raw_content = Value (content m)\<rparr>) msgs"
proof (induction ms arbitrary: n msgs)
  case Nil
  then show ?case by simp
next
  case (Cons m ms)
  from Cons.prems obtain x xs where
    x: "validate_Message n m = Inr x" and
    xs: "each (map (\<lambda>(i, m). validate_Message i m) (enumerate (Suc n) ms)) = Inr xs" and
    msgs: "msgs = x # xs"
    by (auto simp add: map_sum_Inr both_Inr)
  from Cons.IH [OF xs] validate_Message_Inr [OF x] show ?case by (simp add: msgs)
qed

lemma validate_messages_Inr:
  "validate_messages f = Inr msgs \<Longrightarrow>
   f = Value (map (\<lambda>m. \<lparr>raw_role = Value (role m), raw_content = Value (content m)\<rparr>) msgs)"
  by (cases f) (auto simp add: validate_messages_def map_sum_Inr both_Inr dest: each_Message_Inr)

lemma validate_max_tokens_Inr:
  "validate_max_tokens cfg f = Inr v \<Longrightarrow>
   v = (case f of Absent \<Rightarrow> Some 1024 | Null \<Rightarrow> None | Value n \<Rightarrow> Some n)"
  by (cases f) (auto simp add: validate_max_tokens_def dest: violated_Inr)

lemma validate_temperature_Inr:
  "validate_temperature f = Inr v \<Longrightarrow>
   v = (case f of Absent \<Rightarrow> Some 1 | Null \<Rightarrow> None | Value x \<Rightarrow> Some x)"
  by (cases f) (auto simp add: validate_temperature_def dest: violated_Inr)

lemma validate_model_Inr:
  "validate_model f = Inr v \<Longrightarrow>
   v = (case f of Absent \<Rightarrow> Some ''gpt-3.5-turbo'' | Null \<Rightarrow> None | Value m \<Rightarrow> Some m)"
  by (cases f) (auto simp add: validate_model_def)

lemma validate_Inr:
  assumes "validate cfg raw = Inr request"
  shows "raw_messages raw =
           Value (map (\<lambda>m. \<lparr>raw_role = Value (role m), raw_content = Value (content m)\<rparr>)
                    (messages request))"
    and "model request =
           (case raw_model raw of Absent \<Rightarrow> Some ''gpt-3.5-turbo'' | Null \<Rightarrow> None
            | Value m \<Rightarrow> Some m)"
    and "max_tokens request =
           (case raw_max_tokens raw of Absent \<Rightarrow> Some 1024 | Null \<Rightarrow> None | Value n \<Rightarrow> Some n)"
    and "temperature request =
           (case raw_temperature raw of Absent \<Rightarrow> Some 1 | Null \<Rightarrow> None | Value x \<Rightarrow> Some x)"
proof -
  from assms obtain ms md mt t where
    "validate_messages (raw_messages raw) = Inr ms"
    "validate_model (raw_model raw) = Inr md"
    "validate_max_tokens cfg (raw_max_tokens raw) = Inr mt"
    "validate_temperature (raw_temperature raw) = Inr t"
    "request = \<lparr>messages = ms, model = md, max_tokens = mt, temperature = t\<rparr>"
    by (auto simp add: validate_def map_sum_Inr both_Inr)
  then show
    "raw_messages raw =
           Value (map (\<lambda>m. \<lparr>raw_role = Value (role m), raw_content = Value (content m)\<rparr>)
                    (messages request))"
    "model request =
           (case raw_model raw of Absent \<Rightarrow> Some ''gpt-3.5-turbo'' | Null \<Rightarrow> None
            | Value m \<Rightarrow> Some m)"
    "max_tokens request =
           (case raw_max_tokens raw of Absent \<Rightarrow> Some 1024 | Null \<Rightarrow> None | Value n \<Rightarrow> Some n)"
    "temperature request =
           (case raw_temperature raw of Absent \<Rightarrow> Some 1 | Null \<Rightarrow> None | Value x \<Rightarrow> Some x)"
    using validate_messages_Inr validate_model_Inr validate_max_tokens_Inr validate_temperature_Inr
    by simp_all
qed

subsection \<open>Acceptance\<close>

lemma app_chat_rejected:
  "validate cfg raw = Inl errors \<Longrightarrow>
   app cfg client now s (POST_api_chat req_client raw) =
     \<lparr>returned = \<lparr>status = 422, body = Validation_errors errors\<rparr>,
      store_after = s, upstream_calls = [], logged = []\<rparr>"
  by (simp add: app_def)

lemma spec_accepts_no_null:
  "raw_max_tokens raw \<noteq> Null \<Longrightarrow> raw_temperature raw \<noteq> Null \<Longrightarrow>
   spec_accepts cfg raw \<longleftrightarrow> accepts_condition cfg raw"
  by (cases "raw_max_tokens raw"; cases "raw_temperature raw")
    (simp_all add: spec_accepts_def accepts_condition_def)

text \<open>
  Claim C3, as the code has it. Validation accepts a raw body exactly when: messages are
  given, at least 1 and at most 50, each with a role among \<open>user\<close>, \<open>assistant\<close>,
  \<open>system\<close> and a content of length 1 to 10000; \<open>max_tokens\<close>, when given as an integer,
  is between 1 and \<open>MAX_TOKENS\<close>; \<open>temperature\<close>, when given as a number, is between 0
  and 2. Either of the two may also be given as \<^verbatim>\<open>null\<close>, and the accepted request then
  holds \<^verbatim>\<open>None\<close> for it; it holds 1024 and 1.0 where the body leaves them out. For a body
  that gives neither as \<^verbatim>\<open>null\<close>, this is the specification's condition. A body that fails
  the condition is answered with the validation status 422. The boundary cases of the claim
  are the instances of the example that follows.
\<close>

theorem validation_accepts_iff:
  "(accepts cfg raw \<longleftrightarrow> accepts_condition cfg raw) \<and>
   (raw_max_tokens raw \<noteq> Null \<and> raw_temperature raw \<noteq> Null \<longrightarrow>
      (accepts cfg raw \<longleftrightarrow> spec_accepts cfg raw)) \<and>
   (\<forall>request. validate cfg raw = Inr request \<longrightarrow>
      max_tokens request =
        (case raw_max_tokens raw of Absent \<Rightarrow> Some 1024 | Null \<Rightarrow> None | Value n \<Rightarrow> Some n) \<and>
      temperature request =
        (case raw_temperature raw of Absent \<Rightarrow> Some 1 | Null \<Rightarrow> None | Value x \<Rightarrow> Some x)) \<and>
   (\<not> accepts_condition cfg raw \<longrightarrow>
      status (returned (app cfg client now s (POST_api_chat req_client raw))) = 422)"
proof -
  have a: "accepts cfg raw \<longleftrightarrow> accepts_condition cfg raw"
    by (simp add: accepts_iff isl_validate)
  have "status (returned (app cfg client now s (POST_api_chat req_client raw))) = 422"
    if "\<not> accepts_condition cfg raw"
  proof -
    from that have "isl (validate cfg raw)" by (simp add: isl_validate)
    then obtain errors where "validate cfg raw = Inl errors" by (cases "validate cfg raw") auto
    then show ?thesis by (simp add: app_chat_rejected)
  qed
  with a show ?thesis by (auto simp add: spec_accepts_no_null dest: validate_Inr(3,4))
qed

lemma list_all_replicate: "list_all P (replicate n x) \<longleftrightarrow> n = 0 \<or> P x"
  by (induction n) auto

theorem validation_accepts_iff_witness:
  "accepts default_config (request_of (replicate 50 (user_message ''hello''))) \<and>
   accepts default_config (request_of [user_message (replicate 10000 CHR ''a'')]) \<and>
   accepts default_config
     ((request_of [user_message ''hello''])\<lparr>raw_max_tokens := Value (MAX_TOKENS default_config)\<rparr>) \<and>
   \<not> accepts default_config (request_of []) \<and>
   \<not> accepts default_config (request_of (replicate 51 (user_message ''hello''))) \<and>
   \<not> accepts default_config (request_of [user_message []]) \<and>
   \<not> accepts default_config (request_of [user_message (replicate 10001 CHR ''a'')]) \<and>
   \<not> accepts default_config ((request_of [user_message ''hello''])\<lparr>raw_max_tokens := Value 0\<rparr>) \<and>
   \<not> accepts default_config
     ((request_of [user_message ''hello''])
        \<lparr>raw_max_tokens := Value (MAX_TOKENS default_config + 1)\<rparr>) \<and>
   status (returned (app default_config stub_client 0 Map.empty
     (POST_api_chat None (request_of [])))) = 422 \<and>
   validate default_config (request_of [user_message ''hello'']) =
     Inr \<lparr>messages = [\<lparr>role = ''user'', content = ''hello''\<rparr>], model = Some ''gpt-3.5-turbo'',
          max_tokens = Some 1024, temperature = Some 1\<rparr>"
  using
    validation_accepts_iff [of default_config "request_of (replicate 50 (user_message ''hello''))"]
    validation_accepts_iff [of default_config "request_of [user_message (replicate 10000 CHR ''a'')]"]
    validation_accepts_iff [of default_config
      "(request_of [user_message ''hello''])\<lparr>raw_max_tokens := Value (MAX_TOKENS default_config)\<rparr>"]
    validation_accepts_iff [of default_config "request_of []" stub_client 0 Map.empty None]
    validation_accepts_iff [of default_config "request_of (replicate 51 (user_message ''hello''))"]
    validation_accepts_iff [of default_config "request_of [user_message []]"]
    validation_accepts_iff [of default_config "request_of [user_message (replicate 10001 CHR ''a'')]"]
    validation_accepts_iff [of default_config
      "(request_of [user_message ''hello''])\<lparr>raw_max_tokens := Value 0\<rparr>"]
    validation_accepts_iff [of default_config
      "(request_of [user_message ''hello''])\<lparr>raw_max_tokens := Value (MAX_TOKENS default_config + 1)\<rparr>"]
  by (simp add: accepts_condition_def spec_accepts_def spec_message_ok_def request_of_def
      user_message_def default_config_def list_all_replicate validate_def validate_messages_def
      validate_Message_def validate_role_def validate_content_def validate_model_def
      validate_max_tokens_def validate_temperature_def violated_def)

text \<open>
  The claim as written has a given \<open>max_tokens\<close> be an integer between 1 and
  \<open>MAX_TOKENS\<close>, and 1024 stand in when none is given. A body with one message and
  \<open>max_tokens\<close> given as \<^verbatim>\<open>null\<close>: the specification's condition does not hold of it, the
  code accepts it, and the accepted request holds \<^verbatim>\<open>None\<close>, neither an integer in the
  range nor the default.
\<close>

theorem validation_null_counterexample:
  "\<not> spec_accepts default_config
       ((request_of [user_message ''hello''])\<lparr>raw_max_tokens := Null\<rparr>) \<and>
   validate default_config ((request_of [user_message ''hello''])\<lparr>raw_max_tokens := Null\<rparr>) =
     Inr \<lparr>messages = [\<lparr>role = ''user'', content = ''hello''\<rparr>], model = Some ''gpt-3.5-turbo'',
          max_tokens = None, temperature = Some 1\<rparr>"
  by (simp add: spec_accepts_def request_of_def user_message_def validate_def
      validate_messages_def validate_Message_def validate_role_def validate_content_def
      validate_model_def validate_max_tokens_def validate_temperature_def violated_def)

section \<open>Properties of the handlers\<close>

lemma chat_try_calls:
  "fst (snd (chat_try client ip request)) = [chat_completions_create_call (spec_forwarded request)]"
  by (simp add: chat_try_def spec_forwarded_def Let_def split: sum.splits list.splits option.splits)

lemma chat_try_result:
  "fst (chat_try client ip request) =
     (case chat_completions_create client (spec_forwarded request) of
        Inl e \<Rightarrow> Inl e
      | Inr resp \<Rightarrow>
          (case choices resp of
             [] \<Rightarrow> Inl IndexError
           | None # rest \<Rightarrow> Inl ValidationError
           | Some text # rest \<Rightarrow>
               Inr \<lparr>response = text, response_model = completion_model resp,
                    usage = usage_dict (completion_usage resp)\<rparr>))"
  by (simp add: chat_try_def spec_forwarded_def usage_dict_def Let_def
      split: sum.splits list.splits option.splits)

lemma chat_denied:
  assumes "\<not> fst (check_rate_limit cfg now s (case req_client of Some host \<Rightarrow> host | None \<Rightarrow> ''unknown''))"
  shows "chat cfg client now s req_client request =
     \<lparr>returned = Inl (HTTPException 429 ''Rate limit exceeded. Please try again later.''),
      store_after = snd (check_rate_limit cfg now s
        (case req_client of Some host \<Rightarrow> host | None \<Rightarrow> ''unknown'')),
      upstream_calls = [],
      logged = [warning_rate_limit_exceeded
        (case req_client of Some host \<Rightarrow> host | None \<Rightarrow> ''unknown'')]\<rparr>"
  using assms
  by (cases "check_rate_limit cfg now s (case req_client of Some host \<Rightarrow> host | None \<Rightarrow> ''unknown'')")
    (simp add: chat_def)

lemma chat_admitted:
  assumes "fst (check_rate_limit cfg now s (case req_client of Some host \<Rightarrow> host | None \<Rightarrow> ''unknown''))"
  shows "store_after (chat cfg client now s req_client request) =
           snd (check_rate_limit cfg now s
             (case req_client of Some host \<Rightarrow> host | None \<Rightarrow> ''unknown''))"
    and "upstream_calls (chat cfg client now s req_client request) =
           [chat_completions_create_call (spec_forwarded request)]"
    and "returned (chat cfg client now s req_client request) =
           (case fst (chat_try client
                   (case req_client of Some host \<Rightarrow> host | None \<Rightarrow> ''unknown'') request) of
              Inr r \<Rightarrow> Inr r
            | Inl (Raised_HTTPException h) \<Rightarrow> Inl h
            | Inl e \<Rightarrow> Inl (HTTPException 500 generic_detail))"
    and "logged (chat cfg client now s req_client request) =
           snd (snd (chat_try client
                   (case req_client of Some host \<Rightarrow> host | None \<Rightarrow> ''unknown'') request))
           @ (case fst (chat_try client
                   (case req_client of Some host \<Rightarrow> host | None \<Rightarrow> ''unknown'') request) of
                Inr r \<Rightarrow> []
              | Inl (Raised_HTTPException h) \<Rightarrow> []
              | Inl e \<Rightarrow> [error_in_chat_endpoint e])"
  using assms chat_try_calls [of client "case req_client of Some host \<Rightarrow> host | None \<Rightarrow> ''unknown''" request]
  by (cases "check_rate_limit cfg now s (case req_client of Some host \<Rightarrow> host | None \<Rightarrow> ''unknown'')";
      cases "chat_try client (case req_client of Some host \<Rightarrow> host | None \<Rightarrow> ''unknown'') request";
      simp add: chat_def generic_detail_def split: sum.splits exn.splits)+

lemma app_chat_accepted:
  "validate cfg raw = Inr request \<Longrightarrow>
   app cfg client now s (POST_api_chat req_client raw) =
     \<lparr>returned =
        (case returned (chat cfg client now s req_client request) of
           Inl h \<Rightarrow> \<lparr>status = status_code h, body = Detail (detail h)\<rparr>
         | Inr r \<Rightarrow> \<lparr>status = 200, body = Chat r\<rparr>),
      store_after = store_after (chat cfg client now s req_client request),
      upstream_calls = upstream_calls (chat cfg client now s req_client request),
      logged = logged (chat cfg client now s req_client request)\<rparr>"
  by (simp add: app_def Let_def)

lemma app_chat_admitted:
  assumes "validate cfg raw = Inr request"
    and "fst (check_rate_limit cfg now s (client_key req_client))"
  shows "store_after (app cfg client now s (POST_api_chat req_client raw)) =
           snd (check_rate_limit cfg now s (client_key req_client))"
    and "upstream_calls (app cfg client now s (POST_api_chat req_client raw)) =
           [chat_completions_create_call (spec_forwarded request)]"
    and "returned (app cfg client now s (POST_api_chat req_client raw)) =
           (case chat_completions_create client (spec_forwarded request) of
              Inl (Raised_HTTPException h) \<Rightarrow> \<lparr>status = status_code h, body = Detail (detail h)\<rparr>
            | Inl e \<Rightarrow> \<lparr>status = 500, body = Detail generic_detail\<rparr>
            | Inr resp \<Rightarrow>
                (case choices resp of
                   [] \<Rightarrow> \<lparr>status = 500, body = Detail generic_detail\<rparr>
                 | None # rest \<Rightarrow> \<lparr>status = 500, body = Detail generic_detail\<rparr>
                 | Some text # rest \<Rightarrow>
                     \<lparr>status = 200,
                      body = Chat \<lparr>response = text, response_model = completion_model resp,
                                  usage = usage_dict (completion_usage resp)\<rparr>\<rparr>))"
  using assms
  by (simp_all add: app_chat_accepted chat_admitted client_key_def chat_try_result
      split: sum.splits exn.splits list.splits option.splits)

lemma app_chat_admitted_log:
  assumes "validate cfg raw = Inr request"
    and "fst (check_rate_limit cfg now s (client_key req_client))"
    and "fst (chat_try client (client_key req_client) request) = Inl e"
    and "\<forall>h. e \<noteq> Raised_HTTPException h"
  shows "last (logged (app cfg client now s (POST_api_chat req_client raw))) = error_in_chat_endpoint e"
  using assms
  by (cases e) (simp_all add: app_chat_accepted chat_admitted client_key_def)

lemma app_chat_denied:
  assumes "validate cfg raw = Inr request"
    and "\<not> fst (check_rate_limit cfg now s (client_key req_client))"
  shows "app cfg client now s (POST_api_chat req_client raw) =
     \<lparr>returned = \<lparr>status = 429, body = Detail ''Rate limit exceeded. Please try again later.''\<rparr>,
      store_after = snd (check_rate_limit cfg now s (client_key req_client)),
      upstream_calls = [],
      logged = [warning_rate_limit_exceeded (client_key req_client)]\<rparr>"
  using assms by (simp add: app_chat_accepted chat_denied client_key_def)

subsection \<open>Forwarding and the success response\<close>

text \<open>
  Claim C1. For a body that passes validation, from a client that the rate limiter admits:
  the handler makes one upstream call, whose messages are the body's messages in order,
  each with its role and content, and whose model, \<open>max_tokens\<close> and \<open>temperature\<close> are
  the resolved ones. When the upstream returns a completion whose first choice has a text,
  the answer is status 200 with \<open>response\<close> that text, \<open>model\<close> the model the provider
  reports, and \<open>usage\<close> the provider's three counts, or \<^verbatim>\<open>None\<close> when it reports none.
\<close>

theorem chat_forwards_and_shapes:
  assumes "validate cfg raw = Inr request"
    and "fst (check_rate_limit cfg now s (client_key req_client))"
  shows "raw_messages raw =
           Value (map (\<lambda>(r, c). \<lparr>raw_role = Value r, raw_content = Value c\<rparr>)
                    (arg_messages (spec_forwarded request))) \<and>
         arg_max_tokens (spec_forwarded request) =
           (case raw_max_tokens raw of Absent \<Rightarrow> Some 1024 | Null \<Rightarrow> None | Value n \<Rightarrow> Some n) \<and>
         arg_temperature (spec_forwarded request) =
           (case raw_temperature raw of Absent \<Rightarrow> Some 1 | Null \<Rightarrow> None | Value x \<Rightarrow> Some x) \<and>
         upstream_calls (app cfg client now s (POST_api_chat req_client raw)) =
           [chat_completions_create_call (spec_forwarded request)] \<and>
         (\<forall>resp text rest.
            chat_completions_create client (spec_forwarded request) = Inr resp \<and>
            choices resp = Some text # rest \<longrightarrow>
            returned (app cfg client now s (POST_api_chat req_client raw)) =
              \<lparr>status = 200,
               body = Chat \<lparr>response = text, response_model = completion_model resp,
                           usage = usage_dict (completion_usage resp)\<rparr>\<rparr>)"
proof -
  have "raw_messages raw =
           Value (map (\<lambda>(r, c). \<lparr>raw_role = Value r, raw_content = Value c\<rparr>)
                    (arg_messages (spec_forwarded request)))"
    using validate_Inr(1) [OF assms(1)] by (simp add: spec_forwarded_def comp_def)
  moreover have "arg_max_tokens (spec_forwarded request) =
           (case raw_max_tokens raw of Absent \<Rightarrow> Some 1024 | Null \<Rightarrow> None | Value n \<Rightarrow> Some n)"
    using validate_Inr(3) [OF assms(1)] by (simp add: spec_forwarded_def)
  moreover have "arg_temperature (spec_forwarded request) =
           (case raw_temperature raw of Absent \<Rightarrow> Some 1 | Null \<Rightarrow> None | Value x \<Rightarrow> Some x)"
    using validate_Inr(4) [OF assms(1)] by (simp add: spec_forwarded_def)
  ultimately show ?thesis
    by (simp add: app_chat_admitted [OF assms])
qed

theorem chat_forwards_and_shapes_witness:
  "upstream_calls (app default_config stub_client 0 Map.empty
     (POST_api_chat (Some ''203.0.113.7'') (request_of [user_message ''hello'']))) =
     [chat_completions_create_call
        \<lparr>arg_model = Some ''gpt-3.5-turbo'', arg_messages = [(''user'', ''hello'')],
         arg_max_tokens = Some 1024, arg_temperature = Some 1\<rparr>] \<and>
   returned (app default_config stub_client 0 Map.empty
     (POST_api_chat (Some ''203.0.113.7'') (request_of [user_message ''hello'']))) =
     \<lparr>status = 200,
      body = Chat \<lparr>response = ''hi'', response_model = ''gpt-3.5-turbo'',
                  usage = Some [(''prompt_tokens'', 5), (''completion_tokens'', 1),
                                (''total_tokens'', 6)]\<rparr>\<rparr>"
proof -
  have v: "validate default_config (request_of [user_message ''hello'']) =
     Inr \<lparr>messages = [\<lparr>role = ''user'', content = ''hello''\<rparr>], model = Some ''gpt-3.5-turbo'',
          max_tokens = Some 1024, temperature = Some 1\<rparr>"
    by (simp add: request_of_def user_message_def default_config_def validate_def
        validate_messages_def validate_Message_def validate_role_def validate_content_def
        validate_model_def validate_max_tokens_def validate_temperature_def violated_def)
  have a: "fst (check_rate_limit default_config 0 Map.empty (client_key (Some ''203.0.113.7'')))"
    by (simp add: fst_check record_of_empty default_config_def)
  show ?thesis
    using chat_forwards_and_shapes [OF v a, of stub_client]
    by (simp add: spec_forwarded_def in_valid_models_def valid_models_def stub_client_def
        usage_dict_def)
qed

subsection \<open>The model sent upstream\<close>

lemma accepts_condition_model:
  "accepts_condition cfg (raw\<lparr>raw_model := m\<rparr>) \<longleftrightarrow> accepts_condition cfg raw"
  by (simp add: accepts_condition_def)

lemma forwarded_model:
  assumes "validate cfg raw = Inr request"
  shows "arg_model (spec_forwarded request) =
     (case raw_model raw of
        Value name \<Rightarrow> if name \<in> set valid_models then Some name else Some ''gpt-3.5-turbo''
      | _ \<Rightarrow> Some ''gpt-3.5-turbo'')"
  using validate_Inr(2) [OF assms]
  by (cases "raw_model raw") (simp_all add: spec_forwarded_def in_valid_models_def valid_models_def)

text \<open>
  Claim C4. Whatever the body gives as \<open>model\<close>, also nothing, it is accepted or rejected
  as the same body with any other \<open>model\<close> is: no request is rejected for its model. For
  a validated and admitted request, the upstream call carries the requested model when it is
  on the allow-list and \<open>gpt-3.5-turbo\<close> otherwise (a missing or \<^verbatim>\<open>null\<close> model too), and the
  \<open>model\<close> of a success response is the model of the completion the upstream returned.
\<close>

theorem unsupported_model_replaced:
  "(accepts cfg (raw\<lparr>raw_model := m\<rparr>) \<longleftrightarrow> accepts cfg raw) \<and>
   (validate cfg raw = Inr request \<and> fst (check_rate_limit cfg now s (client_key req_client)) \<longrightarrow>
      (\<exists>args.
         upstream_calls (app cfg client now s (POST_api_chat req_client raw)) =
           [chat_completions_create_call args] \<and>
         arg_model args =
           (case raw_model raw of
              Value name \<Rightarrow> if name \<in> set valid_models then Some name else Some ''gpt-3.5-turbo''
            | _ \<Rightarrow> Some ''gpt-3.5-turbo'') \<and>
         (\<forall>r. returned (app cfg client now s (POST_api_chat req_client raw)) =
                \<lparr>status = 200, body = Chat r\<rparr> \<longrightarrow>
              (\<exists>resp. chat_completions_create client args = Inr resp \<and>
                      response_model r = completion_model resp))))"
proof -
  have "accepts cfg (raw\<lparr>raw_model := m\<rparr>) \<longleftrightarrow> accepts cfg raw"
    by (simp add: accepts_iff isl_validate accepts_condition_model)
  moreover have "\<exists>args.
         upstream_calls (app cfg client now s (POST_api_chat req_client raw)) =
           [chat_completions_create_call args] \<and>
         arg_model args =
           (case raw_model raw of
              Value name \<Rightarrow> if name \<in> set valid_models then Some name else Some ''gpt-3.5-turbo''
            | _ \<Rightarrow> Some ''gpt-3.5-turbo'') \<and>
         (\<forall>r. returned (app cfg client now s (POST_api_chat req_client raw)) =
                \<lparr>status = 200, body = Chat r\<rparr> \<longrightarrow>
              (\<exists>resp. chat_completions_create client args = Inr resp \<and>
                      response_model r = completion_model resp))"
    if v: "validate cfg raw = Inr request"
      and a: "fst (check_rate_limit cfg now s (client_key req_client))"
  proof -
    have "\<exists>resp. chat_completions_create client (spec_forwarded request) = Inr resp \<and>
                      response_model r = completion_model resp"
      if "returned (app cfg client now s (POST_api_chat req_client raw)) =
                \<lparr>status = 200, body = Chat r\<rparr>" for r
      using that
      by (auto simp add: app_chat_admitted(3) [OF v a]
          split: sum.splits exn.splits list.splits option.splits)
    with app_chat_admitted(2) [OF v a] forwarded_model [OF v] show ?thesis
      by blast
  qed
  ultimately show ?thesis by blast
qed

theorem unsupported_model_replaced_witness:
  "accepts default_config ((request_of [user_message ''hello''])\<lparr>raw_model := Value ''llama-3''\<rparr>) \<and>
   upstream_calls (app default_config dated_client 0 Map.empty
     (POST_api_chat None ((request_of [user_message ''hello''])\<lparr>raw_model := Value ''llama-3''\<rparr>))) =
     [chat_completions_create_call
        \<lparr>arg_model = Some ''gpt-3.5-turbo'', arg_messages = [(''user'', ''hello'')],
         arg_max_tokens = Some 1024, arg_temperature = Some 1\<rparr>] \<and>
   returned (app default_config dated_client 0 Map.empty
     (POST_api_chat None ((request_of [user_message ''hello''])\<lparr>raw_model := Value ''llama-3''\<rparr>))) =
     \<lparr>status = 200,
      body = Chat \<lparr>response = ''hi'', response_model = ''gpt-3.5-turbo-0125'', usage = None\<rparr>\<rparr>"
proof -
  have v: "validate default_config
       ((request_of [user_message ''hello''])\<lparr>raw_model := Value ''llama-3''\<rparr>) =
     Inr \<lparr>messages = [\<lparr>role = ''user'', content = ''hello''\<rparr>], model = Some ''llama-3'',
          max_tokens = Some 1024, temperature = Some 1\<rparr>"
    by (simp add: request_of_def user_message_def default_config_def validate_def
        validate_messages_def validate_Message_def validate_role_def validate_content_def
        validate_model_def validate_max_tokens_def validate_temperature_def violated_def)
  have a: "fst (check_rate_limit default_config 0 Map.empty (client_key None))"
    by (simp add: fst_check record_of_empty default_config_def)
  from unsupported_model_replaced
    [where cfg = default_config and raw = "request_of [user_message ''hello'']"
      and m = "Value ''llama-3''"]
    unsupported_model_replaced
    [where cfg = default_config
      and raw = "(request_of [user_message ''hello''])\<lparr>raw_model := Value ''llama-3''\<rparr>"
      and now = 0 and s = Map.empty and req_client = None and client = dated_client]
  show ?thesis
    by (simp add: app_chat_admitted [OF v a] accepts_def v spec_forwarded_def in_valid_models_def
        valid_models_def dated_client_def usage_dict_def)
qed

subsection \<open>Upstream failures\<close>

lemma hello_valid:
  "validate cfg (request_of [user_message ''hello'']) =
     Inr \<lparr>messages = [\<lparr>role = ''user'', content = ''hello''\<rparr>], model = Some ''gpt-3.5-turbo'',
          max_tokens = Some 1024, temperature = Some 1\<rparr>"
  by (simp add: request_of_def user_message_def validate_def
      validate_messages_def validate_Message_def validate_role_def validate_content_def
      validate_model_def validate_max_tokens_def validate_temperature_def violated_def)

lemma fresh_admitted:
  "0 < RATE_LIMIT_REQUESTS cfg \<Longrightarrow> fst (check_rate_limit cfg now Map.empty k)"
  by (simp add: fst_check record_of_empty)

text \<open>
  Claim C5. For a validated and admitted request, when the upstream call raises an exception
  other than an \<^verbatim>\<open>HTTPException\<close>, or returns a completion with no choice, or one whose
  first choice has no text, the answer is status 500 with one fixed detail text, the same for
  every exception: the exception is not in the body. It is the last record of the log.
\<close>

theorem upstream_failure_is_generic_500:
  assumes "validate cfg raw = Inr request"
    and "fst (check_rate_limit cfg now s (client_key req_client))"
    and "(chat_completions_create client (spec_forwarded request) = Inl e \<and>
            (\<forall>h. e \<noteq> Raised_HTTPException h)) \<or>
         (\<exists>resp. chat_completions_create client (spec_forwarded request) = Inr resp \<and>
            choices resp = [] \<and> e = IndexError) \<or>
         (\<exists>resp rest. chat_completions_create client (spec_forwarded request) = Inr resp \<and>
            choices resp = None # rest \<and> e = ValidationError)"
  shows "returned (app cfg client now s (POST_api_chat req_client raw)) =
           \<lparr>status = 500,
            body = Detail ''An error occurred while processing your request. Please try again.''\<rparr> \<and>
         last (logged (app cfg client now s (POST_api_chat req_client raw))) =
           error_in_chat_endpoint e"
proof -
  from assms(3) have r: "fst (chat_try client (client_key req_client) request) = Inl e"
    and h: "\<forall>h. e \<noteq> Raised_HTTPException h"
    by (auto simp add: chat_try_result)
  from r h have "returned (app cfg client now s (POST_api_chat req_client raw)) =
           \<lparr>status = 500, body = Detail generic_detail\<rparr>"
    by (cases e)
      (simp_all add: app_chat_accepted [OF assms(1)] chat_admitted(3) client_key_def assms(2) [unfolded client_key_def])
  with app_chat_admitted_log [OF assms(1,2) r h] show ?thesis
    by (simp add: generic_detail_def)
qed

theorem upstream_failure_is_generic_500_witness:
  "returned (app default_config failing_client 0 Map.empty
     (POST_api_chat (Some ''203.0.113.7'') (request_of [user_message ''hello'']))) =
     \<lparr>status = 500,
      body = Detail ''An error occurred while processing your request. Please try again.''\<rparr> \<and>
   logged (app default_config failing_client 0 Map.empty
     (POST_api_chat (Some ''203.0.113.7'') (request_of [user_message ''hello'']))) =
     [info_chat_request ''203.0.113.7'' (Some ''gpt-3.5-turbo''),
      error_in_chat_endpoint (OtherError ''Connection error.'')]"
proof -
  have a: "fst (check_rate_limit default_config 0 Map.empty (client_key (Some ''203.0.113.7'')))"
    by (simp add: fresh_admitted default_config_def)
  have f: "(chat_completions_create failing_client
              (spec_forwarded \<lparr>messages = [\<lparr>role = ''user'', content = ''hello''\<rparr>],
                 model = Some ''gpt-3.5-turbo'', max_tokens = Some 1024, temperature = Some 1\<rparr>) =
            Inl (OtherError ''Connection error.'') \<and>
            (\<forall>h. OtherError ''Connection error.'' \<noteq> Raised_HTTPException h)) \<or>
         (\<exists>resp. chat_completions_create failing_client
              (spec_forwarded \<lparr>messages = [\<lparr>role = ''user'', content = ''hello''\<rparr>],
                 model = Some ''gpt-3.5-turbo'', max_tokens = Some 1024, temperature = Some 1\<rparr>) =
            Inr resp \<and> choices resp = [] \<and> OtherError ''Connection error.'' = IndexError) \<or>
         (\<exists>resp rest. chat_completions_create failing_client
              (spec_forwarded \<lparr>messages = [\<lparr>role = ''user'', content = ''hello''\<rparr>],
                 model = Some ''gpt-3.5-turbo'', max_tokens = Some 1024, temperature = Some 1\<rparr>) =
            Inr resp \<and> choices resp = None # rest \<and> OtherError ''Connection error.'' = ValidationError)"
    by (simp add: failing_client_def)
  have l: "logged (app default_config failing_client 0 Map.empty
     (POST_api_chat (Some ''203.0.113.7'') (request_of [user_message ''hello'']))) =
      [info_chat_request ''203.0.113.7'' (Some ''gpt-3.5-turbo''),
       error_in_chat_endpoint (OtherError ''Connection error.'')]"
    using a
    by (simp add: app_chat_accepted [OF hello_valid] chat_admitted(4) client_key_def
        chat_try_def failing_client_def in_valid_models_def valid_models_def)
  from upstream_failure_is_generic_500 [OF hello_valid a f] show ?thesis
    by (simp add: l)
qed

subsection \<open>The order of validation and rate limiting\<close>

lemma empty_invalid:
  "validate cfg (request_of []) = Inl [(Member ''messages'', min_items)]"
  by (simp add: request_of_def validate_def validate_messages_def validate_model_def
      validate_max_tokens_def validate_temperature_def violated_def)

text \<open>
  Claim C6, as the code has it. The body is validated before the endpoint function, and
  so before the rate limiter, runs. A body that fails validation is answered with status
  422, makes no upstream call, and leaves the rate-limit store as it was: the limiter is
  not consulted, whatever the client's record holds. Every body that passes validation is
  processed by the limiter; when the limiter denies it, the answer is status 429 and no
  upstream call is made.
\<close>

theorem validation_precedes_rate_limit:
  "(\<not> accepts cfg raw \<longrightarrow>
      (\<exists>errors. app cfg client now s (POST_api_chat req_client raw) =
         \<lparr>returned = \<lparr>status = 422, body = Validation_errors errors\<rparr>,
          store_after = s, upstream_calls = [], logged = []\<rparr>)) \<and>
   (accepts cfg raw \<longrightarrow>
      store_after (app cfg client now s (POST_api_chat req_client raw)) =
        snd (check_rate_limit cfg now s (client_key req_client))) \<and>
   (accepts cfg raw \<and> \<not> fst (check_rate_limit cfg now s (client_key req_client)) \<longrightarrow>
      returned (app cfg client now s (POST_api_chat req_client raw)) =
        \<lparr>status = 429, body = Detail ''Rate limit exceeded. Please try again later.''\<rparr> \<and>
      upstream_calls (app cfg client now s (POST_api_chat req_client raw)) = [])"
proof (cases "validate cfg raw")
  case (Inl errors)
  then show ?thesis by (simp add: accepts_def app_chat_rejected)
next
  case (Inr request)
  show ?thesis
  proof (cases "fst (check_rate_limit cfg now s (client_key req_client))")
    case True
    with Inr show ?thesis by (simp add: accepts_def app_chat_admitted(1))
  next
    case False
    with Inr show ?thesis by (simp add: accepts_def app_chat_denied)
  qed
qed

theorem validation_precedes_rate_limit_witness:
  "app two_per_minute stub_client 2 (Map.empty(''203.0.113.7'' \<mapsto> [0, 1]))
     (POST_api_chat (Some ''203.0.113.7'') (request_of [user_message ''hello''])) =
     \<lparr>returned =
        \<lparr>status = 429, body = Detail ''Rate limit exceeded. Please try again later.''\<rparr>,
      store_after = Map.empty(''203.0.113.7'' \<mapsto> [0, 1]),
      upstream_calls = [],
      logged = [warning_rate_limit_exceeded ''203.0.113.7'']\<rparr> \<and>
   (\<exists>errors. app two_per_minute stub_client 2 Map.empty
       (POST_api_chat (Some ''203.0.113.7'') (request_of [])) =
     \<lparr>returned = \<lparr>status = 422, body = Validation_errors errors\<rparr>,
      store_after = Map.empty, upstream_calls = [], logged = []\<rparr>)"
proof -
  have d: "\<not> fst (check_rate_limit two_per_minute 2 (Map.empty(''203.0.113.7'' \<mapsto> [0, 1]))
             (client_key (Some ''203.0.113.7'')))"
    by (simp add: fst_check record_of_upd in_window_def client_key_def two_per_minute_def
        default_config_def)
  have s: "snd (check_rate_limit two_per_minute 2 (Map.empty(''203.0.113.7'' \<mapsto> [0, 1]))
             (client_key (Some ''203.0.113.7''))) = Map.empty(''203.0.113.7'' \<mapsto> [0, 1])"
    by (simp add: check_rate_limit_eq record_of_upd in_window_def client_key_def
        two_per_minute_def default_config_def)
  from validation_precedes_rate_limit
    [where cfg = two_per_minute and raw = "request_of [user_message ''hello'']"
      and client = stub_client and now = 2 and s = "Map.empty(''203.0.113.7'' \<mapsto> [0, 1])"
      and req_client = "Some ''203.0.113.7''"]
    validation_precedes_rate_limit
    [where cfg = two_per_minute and raw = "request_of []"
      and client = stub_client and now = 2 and s = Map.empty
      and req_client = "Some ''203.0.113.7''"]
  show ?thesis
    using d s
    by (simp add: accepts_def hello_valid empty_invalid app_chat_denied [OF hello_valid d]
        client_key_def)
qed

text \<open>
  The claim as written gives an over-limit client the rate-limit outcome for an invalid
  body. A client whose record is full (capacity 2, two requests in the window) posts a
  body with no messages: the answer is 422, not 429, and the record is untouched. From a
  client with no record, the same body leaves the store without the client's key, where a
  call of the limiter would have inserted it.
\<close>

theorem rate_limit_before_validation_counterexample:
  "\<not> fst (check_rate_limit two_per_minute 2 (Map.empty(''203.0.113.7'' \<mapsto> [0, 1]))
          ''203.0.113.7'') \<and>
   app two_per_minute stub_client 2 (Map.empty(''203.0.113.7'' \<mapsto> [0, 1]))
     (POST_api_chat (Some ''203.0.113.7'') (request_of [])) =
     \<lparr>returned = \<lparr>status = 422, body = Validation_errors [(Member ''messages'', min_items)]\<rparr>,
      store_after = Map.empty(''203.0.113.7'' \<mapsto> [0, 1]),
      upstream_calls = [], logged = []\<rparr> \<and>
   store_after (app two_per_minute stub_client 2 Map.empty
     (POST_api_chat (Some ''203.0.113.7'') (request_of []))) ''203.0.113.7'' = None \<and>
   snd (check_rate_limit two_per_minute 2 Map.empty ''203.0.113.7'') ''203.0.113.7'' = Some [2]"
  by (simp add: app_chat_rejected [OF empty_invalid] fst_check record_of_upd record_of_empty
      in_window_def two_per_minute_def default_config_def check_rate_limit_eq)

subsection \<open>Health and status\<close>

text \<open>
  Claim C8. \<^verbatim>\<open>GET /health\<close> answers status 200 with the static identity and the
  configured environment, for every upstream client, and makes no upstream call.
  \<^verbatim>\<open>GET /api/status\<close> always answers status 200; when listing the models raises an
  exception, the body has \<open>api_available\<close> false with the configured environment and
  \<open>max_tokens\<close>, and the exception is only logged.
\<close>

theorem health_and_status_never_fail:
  "app cfg client now s GET_health =
     \<lparr>returned =
        \<lparr>status = 200,
         body = Health \<lparr>health_status = ''healthy'', service = ''AI Chatbot'',
                        version = ''1.0.0'', environment = ENVIRONMENT cfg\<rparr>\<rparr>,
      store_after = s, upstream_calls = [], logged = []\<rparr> \<and>
   status (returned (app cfg client now s GET_api_status)) = 200 \<and>
   (\<forall>e. models_list client = Inl e \<longrightarrow>
      app cfg client now s GET_api_status =
        \<lparr>returned =
           \<lparr>status = 200,
            body = Status \<lparr>api_available = False, status_environment = ENVIRONMENT cfg,
                           status_max_tokens = MAX_TOKENS cfg\<rparr>\<rparr>,
         store_after = s, upstream_calls = [models_list_call],
         logged = [error_api_unavailable e]\<rparr>)"
  by (simp add: app_def health_check_def api_status_def split: sum.splits)

theorem health_and_status_never_fail_witness:
  "returned (app default_config failing_client 0 Map.empty GET_health) =
     \<lparr>status = 200,
      body = Health \<lparr>health_status = ''healthy'', service = ''AI Chatbot'',
                     version = ''1.0.0'', environment = ''development''\<rparr>\<rparr> \<and>
   returned (app default_config failing_client 0 Map.empty GET_api_status) =
     \<lparr>status = 200,
      body = Status \<lparr>api_available = False, status_environment = ''development'',
                     status_max_tokens = 2048\<rparr>\<rparr>"
  using health_and_status_never_fail [of default_config failing_client 0 Map.empty]
  by (simp add: failing_client_def default_config_def)

end
